theory Spec2Isabelle
  imports Complex_Main "HOL-Library.Multiset"
begin

section \<open>Python values\<close>

text \<open>
  The engine of \<^verbatim>\<open>LAB_REPORT_3.py\<close> is dynamically typed: facts, rules, conditions and
  actions are whatever \<^verbatim>\<open>json.loads\<close> or the caller built. The values it can meet are
  modelled by one datatype. A \<^verbatim>\<open>str\<close> is its list of code points; a \<^verbatim>\<open>float\<close> is a finite
  double, given by its exact rational value (the engine only compares floats, it never
  computes with them, and Python compares \<^verbatim>\<open>int\<close> with \<^verbatim>\<open>float\<close> exactly); a \<^verbatim>\<open>dict\<close> with
  string keys is the list of its items in insertion order. NaN and the infinities are not
  part of the model.
\<close>

type_synonym pystr = "nat list"

definition str :: "string \<Rightarrow> pystr" where
  "str cs = map of_char cs"

datatype pyval =
    PNone
  | PBool bool
  | PInt int
  | PFloat rat
  | PStr pystr
  | PList "pyval list"
  | PDict "(pystr \<times> pyval) list"

datatype error = TypeError | KeyError | ValueError | IndexError

text \<open>\<^verbatim>\<open>bool\<close> is a subclass of \<^verbatim>\<open>int\<close>: the three numeric types compare by value.\<close>

fun num_val :: "pyval \<Rightarrow> rat option" where
  "num_val (PBool b) = Some (if b then 1 else 0)"
| "num_val (PInt i) = Some (of_int i)"
| "num_val (PFloat q) = Some q"
| "num_val _ = None"

text \<open>
  \<^verbatim>\<open>a == b\<close> never raises on these values. Lists are equal when they have the same length
  and equal elements; dicts when they have the same number of items and every key of the
  left one is a key of the right one with an equal value.
\<close>

fun py_eq :: "pyval \<Rightarrow> pyval \<Rightarrow> bool"
  and py_eq_list :: "pyval list \<Rightarrow> pyval list \<Rightarrow> bool"
  and py_eq_items :: "(pystr \<times> pyval) list \<Rightarrow> (pystr \<times> pyval) list \<Rightarrow> bool"
  and py_eq_item :: "pystr \<Rightarrow> pyval \<Rightarrow> (pystr \<times> pyval) list \<Rightarrow> bool"
where
  "py_eq (PList xs) (PList ys) = py_eq_list xs ys"
| "py_eq (PDict d) (PDict e) = (length d = length e \<and> py_eq_items d e)"
| "py_eq (PStr s) (PStr t) = (s = t)"
| "py_eq PNone PNone = True"
| "py_eq a b = (case (num_val a, num_val b) of (Some x, Some y) \<Rightarrow> x = y | _ \<Rightarrow> False)"
| "py_eq_list [] [] = True"
| "py_eq_list (x # xs) (y # ys) = (py_eq x y \<and> py_eq_list xs ys)"
| "py_eq_list _ _ = False"
| "py_eq_items [] e = True"
| "py_eq_items ((k, v) # d) e = (py_eq_item k v e \<and> py_eq_items d e)"
| "py_eq_item k v [] = False"
| "py_eq_item k v ((k', w) # e) = (if k = k' then py_eq v w else py_eq_item k v e)"

text \<open>Strings are ordered lexicographically by code point.\<close>

fun str_less :: "pystr \<Rightarrow> pystr \<Rightarrow> bool" where
  "str_less [] [] = False"
| "str_less [] (y # ys) = True"
| "str_less (x # xs) [] = False"
| "str_less (x # xs) (y # ys) = (x < y \<or> (x = y \<and> str_less xs ys))"

datatype cmpop = Lt | Le | Gt | Ge

fun cmp_ord :: "cmpop \<Rightarrow> 'a::linorder \<Rightarrow> 'a \<Rightarrow> bool" where
  "cmp_ord Lt x y = (x < y)"
| "cmp_ord Le x y = (x \<le> y)"
| "cmp_ord Gt x y = (y < x)"
| "cmp_ord Ge x y = (y \<le> x)"

fun cmp_str :: "cmpop \<Rightarrow> pystr \<Rightarrow> pystr \<Rightarrow> bool" where
  "cmp_str Lt s t = str_less s t"
| "cmp_str Le s t = (\<not> str_less t s)"
| "cmp_str Gt s t = str_less t s"
| "cmp_str Ge s t = (\<not> str_less s t)"

text \<open>
  The ordered comparisons \<^verbatim>\<open><\<close>, \<^verbatim>\<open><=\<close>, \<^verbatim>\<open>>\<close>, \<^verbatim>\<open>>=\<close>: numbers with numbers, strings
  with strings, lists with lists (the first pair of unequal elements decides, else the
  lengths); every other pairing raises \<^verbatim>\<open>TypeError\<close>.
\<close>

fun py_cmp :: "cmpop \<Rightarrow> pyval \<Rightarrow> pyval \<Rightarrow> error + bool"
  and py_cmp_list :: "cmpop \<Rightarrow> pyval list \<Rightarrow> pyval list \<Rightarrow> error + bool"
where
  "py_cmp c (PList xs) (PList ys) = py_cmp_list c xs ys"
| "py_cmp c (PStr s) (PStr t) = Inr (cmp_str c s t)"
| "py_cmp c a b =
     (case (num_val a, num_val b) of
        (Some x, Some y) \<Rightarrow> Inr (cmp_ord c x y)
      | _ \<Rightarrow> Inl TypeError)"
| "py_cmp_list c (x # xs) (y # ys) =
     (if py_eq x y then py_cmp_list c xs ys else py_cmp c x y)"
| "py_cmp_list c xs ys = Inr (cmp_ord c (length xs) (length ys))"

text \<open>
  \<^verbatim>\<open>a in b\<close>: substring test when \<^verbatim>\<open>b\<close> is a string (and then \<^verbatim>\<open>a\<close> must be one),
  element test by \<^verbatim>\<open>==\<close> when \<^verbatim>\<open>b\<close> is a list, key test when \<^verbatim>\<open>b\<close> is a dict (and then
  \<^verbatim>\<open>a\<close> must be hashable); any other right operand is not a container and raises.
\<close>

fun is_prefix :: "pystr \<Rightarrow> pystr \<Rightarrow> bool" where
  "is_prefix [] t = True"
| "is_prefix (x # xs) [] = False"
| "is_prefix (x # xs) (y # ys) = (x = y \<and> is_prefix xs ys)"

fun is_substr :: "pystr \<Rightarrow> pystr \<Rightarrow> bool" where
  "is_substr s [] = (s = [])"
| "is_substr s (y # ys) = (is_prefix s (y # ys) \<or> is_substr s ys)"

fun hashable :: "pyval \<Rightarrow> bool" where
  "hashable (PList xs) = False"
| "hashable (PDict d) = False"
| "hashable _ = True"

fun py_in :: "pyval \<Rightarrow> pyval \<Rightarrow> error + bool" where
  "py_in a (PStr t) = (case a of PStr s \<Rightarrow> Inr (is_substr s t) | _ \<Rightarrow> Inl TypeError)"
| "py_in a (PList ys) = Inr (list_ex (\<lambda>y. py_eq y a) ys)"
| "py_in a (PDict d) =
     (if hashable a
      then Inr (case a of PStr s \<Rightarrow> list_ex (\<lambda>(k, v). k = s) d | _ \<Rightarrow> False)
      else Inl TypeError)"
| "py_in a _ = Inl TypeError"

section \<open>The rule engine\<close>

text \<open>
  What a \<^verbatim>\<open>for\<close> loop or a tuple assignment sees of a value: the elements of a list, the
  one-character strings of a string, the keys of a dict; anything else is not iterable.
\<close>

fun py_iter :: "pyval \<Rightarrow> error + pyval list" where
  "py_iter (PList xs) = Inr xs"
| "py_iter (PStr s) = Inr (map (\<lambda>c. PStr [c]) s)"
| "py_iter (PDict d) = Inr (map (\<lambda>(k, v). PStr k) d)"
| "py_iter _ = Inl TypeError"

text \<open>\<^verbatim>\<open>v[k]\<close> with a string key: only a dict can be subscripted this way.\<close>

fun py_getitem :: "pyval \<Rightarrow> pystr \<Rightarrow> error + pyval" where
  "py_getitem (PDict d) k = (case map_of d k of None \<Rightarrow> Inl KeyError | Some v \<Rightarrow> Inr v)"
| "py_getitem _ k = Inl TypeError"

text \<open>
  Looking a value up as a key of a dict with string keys (\<^verbatim>\<open>k in m\<close> followed by
  \<^verbatim>\<open>m[k]\<close>): the key is hashed first, which raises for lists and dicts; a hashable key
  that is not a string is simply absent.
\<close>

fun py_lookup :: "(pystr \<rightharpoonup> 'a) \<Rightarrow> pyval \<Rightarrow> error + 'a option" where
  "py_lookup m (PStr s) = Inr (m s)"
| "py_lookup m (PList xs) = Inl TypeError"
| "py_lookup m (PDict d) = Inl TypeError"
| "py_lookup m _ = Inr None"

text \<open>The table \<^verbatim>\<open>OPS\<close> of the source, operator symbol to comparison.\<close>

definition OPS :: "(pystr \<times> (pyval \<Rightarrow> pyval \<Rightarrow> error + bool)) list" where
  "OPS =
    [(str ''=='', \<lambda>a b. Inr (py_eq a b)),
     (str ''!='', \<lambda>a b. Inr (\<not> py_eq a b)),
     (str ''>'', py_cmp Gt),
     (str ''>='', py_cmp Ge),
     (str ''<'', py_cmp Lt),
     (str ''<='', py_cmp Le),
     (str ''in'', \<lambda>a b. py_in a b),
     (str ''not_in'', \<lambda>a b. (case py_in a b of Inl e \<Rightarrow> Inl e | Inr r \<Rightarrow> Inr (\<not> r)))]"

text \<open>\<^verbatim>\<open>field, op, value = cond\<close>\<close>

definition unpack3 :: "pyval \<Rightarrow> error + (pyval \<times> pyval \<times> pyval)" where
  "unpack3 cond =
    (case py_iter cond of
       Inl e \<Rightarrow> Inl e
     | Inr [field, opr, val] \<Rightarrow> Inr (field, opr, val)
     | Inr _ \<Rightarrow> Inl ValueError)"

text \<open>
  \<^verbatim>\<open>field in facts and op in OPS and OPS[op](facts[field], value)\<close>: the conjunction is
  evaluated left to right and stops at the first \<^verbatim>\<open>False\<close>.
\<close>

definition evaluate_condition :: "(pystr \<rightharpoonup> pyval) \<Rightarrow> pyval \<Rightarrow> error + bool" where
  "evaluate_condition facts cond =
    (case unpack3 cond of
       Inl e \<Rightarrow> Inl e
     | Inr (field, opr, val) \<Rightarrow>
        (case py_lookup facts field of
           Inl e \<Rightarrow> Inl e
         | Inr None \<Rightarrow> Inr False
         | Inr (Some x) \<Rightarrow>
            (case py_lookup (map_of OPS) opr of
               Inl e \<Rightarrow> Inl e
             | Inr None \<Rightarrow> Inr False
             | Inr (Some f) \<Rightarrow> f x val)))"

text \<open>\<^verbatim>\<open>all(...)\<close> over a generator: conditions are evaluated in order until one is false.\<close>

fun all_conditions :: "(pystr \<rightharpoonup> pyval) \<Rightarrow> pyval list \<Rightarrow> error + bool" where
  "all_conditions facts [] = Inr True"
| "all_conditions facts (c # cs) =
     (case evaluate_condition facts c of
        Inl e \<Rightarrow> Inl e
      | Inr b \<Rightarrow> if b then all_conditions facts cs else Inr False)"

definition rule_matches :: "(pystr \<rightharpoonup> pyval) \<Rightarrow> pyval \<Rightarrow> error + bool" where
  "rule_matches facts rule =
    (case py_getitem rule (str ''conditions'') of
       Inl e \<Rightarrow> Inl e
     | Inr conds \<Rightarrow>
        (case py_iter conds of
           Inl e \<Rightarrow> Inl e
         | Inr cs \<Rightarrow> all_conditions facts cs))"

text \<open>\<^verbatim>\<open>[r for r in rules if rule_matches(facts, r)]\<close>\<close>

fun matched_rules :: "(pystr \<rightharpoonup> pyval) \<Rightarrow> pyval list \<Rightarrow> error + pyval list" where
  "matched_rules facts [] = Inr []"
| "matched_rules facts (r # rs) =
     (case rule_matches facts r of
        Inl e \<Rightarrow> Inl e
      | Inr b \<Rightarrow>
         (case matched_rules facts rs of
            Inl e \<Rightarrow> Inl e
          | Inr ms \<Rightarrow> Inr (if b then r # ms else ms)))"

text \<open>
  \<^verbatim>\<open>sorted(matched, key=lambda r: r["priority"], reverse=True)\<close>. Python first computes the
  key of every element, then sorts the decorated list. The sort is stable, also with
  \<^verbatim>\<open>reverse=True\<close>, and compares keys with \<^verbatim>\<open><\<close> only. It is modelled by its contract: a
  stable insertion sort into descending order that raises when a comparison it makes
  raises (on keys of one totally ordered type, such as integers, this is the result of
  Python's own algorithm).
\<close>

fun priority_keys :: "pyval list \<Rightarrow> error + (pyval \<times> pyval) list" where
  "priority_keys [] = Inr []"
| "priority_keys (r # rs) =
     (case py_getitem r (str ''priority'') of
        Inl e \<Rightarrow> Inl e
      | Inr k \<Rightarrow>
         (case priority_keys rs of
            Inl e \<Rightarrow> Inl e
          | Inr krs \<Rightarrow> Inr ((k, r) # krs)))"

fun insert_desc :: "pyval \<times> pyval \<Rightarrow> (pyval \<times> pyval) list \<Rightarrow> error + (pyval \<times> pyval) list" where
  "insert_desc x [] = Inr [x]"
| "insert_desc x (y # ys) =
     (case py_cmp Lt (fst x) (fst y) of
        Inl e \<Rightarrow> Inl e
      | Inr b \<Rightarrow>
         if b then (case insert_desc x ys of Inl e \<Rightarrow> Inl e | Inr zs \<Rightarrow> Inr (y # zs))
         else Inr (x # y # ys))"

fun sorted_desc :: "(pyval \<times> pyval) list \<Rightarrow> error + (pyval \<times> pyval) list" where
  "sorted_desc [] = Inr []"
| "sorted_desc (x # xs) =
     (case sorted_desc xs of Inl e \<Rightarrow> Inl e | Inr ys \<Rightarrow> insert_desc x ys)"

text \<open>The action returned when no rule matches.\<close>

definition no_rule_matched :: pyval where
  "no_rule_matched =
    PDict [(str ''decision'', PStr (str ''REVIEW'')),
           (str ''reason'', PStr (str ''No rule matched''))]"

definition run_rules :: "(pystr \<rightharpoonup> pyval) \<Rightarrow> pyval \<Rightarrow> error + (pyval \<times> pyval list)" where
  "run_rules facts rules =
    (case py_iter rules of
       Inl e \<Rightarrow> Inl e
     | Inr rs \<Rightarrow>
        (case matched_rules facts rs of
           Inl e \<Rightarrow> Inl e
         | Inr matched \<Rightarrow>
            if matched = [] then Inr (no_rule_matched, [])
            else
              (case priority_keys matched of
                 Inl e \<Rightarrow> Inl e
               | Inr keyed \<Rightarrow>
                  (case sorted_desc keyed of
                     Inl e \<Rightarrow> Inl e
                   | Inr ranked \<Rightarrow>
                      (case map snd ranked of
                         [] \<Rightarrow> Inl IndexError
                       | best # rest \<Rightarrow>
                          (case py_getitem best (str ''action'') of
                             Inl e \<Rightarrow> Inl e
                           | Inr a \<Rightarrow> Inr (a, best # rest)))))))"

section \<open>The default rules and the loading of the rule document\<close>

abbreviation S :: "string \<Rightarrow> pyval" where
  "S cs \<equiv> PStr (str cs)"

text \<open>
  The five rules of \<^verbatim>\<open>DEFAULT_RULES\<close>, in the order of the source, each under a name of
  its own. The float literals of the source denote doubles. \<^verbatim>\<open>3.7\<close> and \<^verbatim>\<open>3.3\<close> are not
  representable and stand for the nearest double, written here exactly.
\<close>

definition double_3_7 :: rat where
  "double_3_7 = 4165829655317709 / 2 ^ 50"

definition double_3_3 :: rat where
  "double_3_3 = 3715469692580659 / 2 ^ 50"

definition rule_top_merit :: pyval where
  "rule_top_merit = PDict
     [(str ''name'', S ''Top merit candidate''),
      (str ''priority'', PInt 100),
      (str ''conditions'', PList
         [PList [S ''cgpa'', S ''>='', PFloat double_3_7],
          PList [S ''co_curricular_score'', S ''>='', PInt 80],
          PList [S ''family_income'', S ''<='', PInt 8000],
          PList [S ''disciplinary_actions'', S ''=='', PInt 0]]),
      (str ''action'', PDict
         [(str ''decision'', S ''AWARD_FULL''),
          (str ''reason'',
           S ''Excellent academic & co-curricular performance with acceptable need'')])]"

definition rule_good_candidate :: pyval where
  "rule_good_candidate = PDict
     [(str ''name'', S ''Good candidate - partial scholarship''),
      (str ''priority'', PInt 80),
      (str ''conditions'', PList
         [PList [S ''cgpa'', S ''>='', PFloat double_3_3],
          PList [S ''co_curricular_score'', S ''>='', PInt 60],
          PList [S ''family_income'', S ''<='', PInt 12000],
          PList [S ''disciplinary_actions'', S ''<='', PInt 1]]),
      (str ''action'', PDict
         [(str ''decision'', S ''AWARD_PARTIAL''),
          (str ''reason'', S ''Good academic & involvement record with moderate need'')])]"

definition rule_need_based :: pyval where
  "rule_need_based = PDict
     [(str ''name'', S ''Need-based review''),
      (str ''priority'', PInt 70),
      (str ''conditions'', PList
         [PList [S ''cgpa'', S ''>='', PFloat (5 / 2)],
          PList [S ''family_income'', S ''<='', PInt 4000]]),
      (str ''action'', PDict
         [(str ''decision'', S ''REVIEW''),
          (str ''reason'', S ''High need but borderline academic score'')])]"

text \<open>The name of the fourth rule contains an en dash, code point 8211.\<close>

definition rule_low_cgpa :: pyval where
  "rule_low_cgpa = PDict
     [(str ''name'', PStr (str ''Low CGPA '' @ [8211] @ str '' not eligible'')),
      (str ''priority'', PInt 95),
      (str ''conditions'', PList
         [PList [S ''cgpa'', S ''<'', PFloat (5 / 2)]]),
      (str ''action'', PDict
         [(str ''decision'', S ''REJECT''),
          (str ''reason'', S ''CGPA below minimum scholarship requirement'')])]"

definition rule_disciplinary :: pyval where
  "rule_disciplinary = PDict
     [(str ''name'', S ''Serious disciplinary record''),
      (str ''priority'', PInt 90),
      (str ''conditions'', PList
         [PList [S ''disciplinary_actions'', S ''>='', PInt 2]]),
      (str ''action'', PDict
         [(str ''decision'', S ''REJECT''),
          (str ''reason'', S ''Too many disciplinary records'')])]"

definition DEFAULT_RULES :: pyval where
  "DEFAULT_RULES =
     PList [rule_top_merit, rule_good_candidate, rule_need_based, rule_low_cgpa,
            rule_disciplinary]"

text \<open>
  The module-level code under \<^verbatim>\<open># --- EVALUATION ---\<close>: the text of the rule editor goes
  through \<^verbatim>\<open>json.loads\<close> inside \<^verbatim>\<open>try\<close>; when that raises, the default rules are used;
  otherwise whatever it returned is the rule collection. \<^verbatim>\<open>json.loads\<close> is a library
  function and is a parameter here: it gives \<open>None\<close> where it raises.
\<close>

definition load_rules :: "(pystr \<Rightarrow> pyval option) \<Rightarrow> pystr \<Rightarrow> pyval" where
  "load_rules json_loads rules_json =
    (case json_loads rules_json of
       None \<Rightarrow> DEFAULT_RULES
     | Some rules \<Rightarrow> rules)"

text \<open>What the press of the button computes: \<^verbatim>\<open>run_rules(facts, rules)\<close> on the loaded rules.\<close>

definition evaluation ::
  "(pystr \<Rightarrow> pyval option) \<Rightarrow> pystr \<Rightarrow> (pystr \<rightharpoonup> pyval) \<Rightarrow> error + (pyval \<times> pyval list)" where
  "evaluation json_loads rules_json facts = run_rules facts (load_rules json_loads rules_json)"

section \<open>The data model of the specification\<close>

text \<open>
  A condition is a triple of a field identifier, an operator symbol and a literal; in the
  rule document it is a 3-element array whose first two elements are text.
\<close>

fun is_condition :: "pyval \<Rightarrow> bool" where
  "is_condition (PList [PStr field, PStr opr, val]) = True"
| "is_condition _ = False"

text \<open>
  A rule is an object with the keys \<^verbatim>\<open>name\<close> (text), \<^verbatim>\<open>priority\<close> (integer),
  \<^verbatim>\<open>conditions\<close> (an array of conditions) and \<^verbatim>\<open>action\<close> (any value).
\<close>

definition is_rule :: "pyval \<Rightarrow> bool" where
  "is_rule r =
    (case r of
       PDict d \<Rightarrow>
        (case (map_of d (str ''name''), map_of d (str ''priority''),
               map_of d (str ''conditions''), map_of d (str ''action'')) of
           (Some (PStr n), Some (PInt p), Some (PList cs), Some a) \<Rightarrow> list_all is_condition cs
         | _ \<Rightarrow> False)
     | _ \<Rightarrow> False)"

text \<open>The integer priority of a rule, where it has one.\<close>

definition rule_priority :: "pyval \<Rightarrow> int option" where
  "rule_priority r =
    (case py_getitem r (str ''priority'') of Inr (PInt p) \<Rightarrow> Some p | _ \<Rightarrow> None)"


text \<open>
  Two rules are the same but for the name: both are objects, and every key other than
  \<^verbatim>\<open>name\<close> is bound to the same value in both, or in neither.
\<close>

definition same_but_name :: "pyval \<Rightarrow> pyval \<Rightarrow> bool" where
  "same_but_name r r' =
    (case (r, r') of
       (PDict d, PDict d') \<Rightarrow> (\<forall>k. k \<noteq> str ''name'' \<longrightarrow> map_of d k = map_of d' k)
     | _ \<Rightarrow> False)"

text \<open>
  The condition can be unpacked and its operator is a key of \<^verbatim>\<open>OPS\<close>: evaluating it
  neither fails in the tuple assignment nor finds the operator unknown.
\<close>

definition condition_in_OPS :: "pyval \<Rightarrow> bool" where
  "condition_in_OPS c =
    (case unpack3 c of
       Inl e \<Rightarrow> False
     | Inr (field, opr, val) \<Rightarrow>
        (case py_lookup (map_of OPS) opr of Inr (Some f) \<Rightarrow> True | _ \<Rightarrow> False))"



section \<open>Operands an operator is defined on\<close>

text \<open>
  Two values are comparison-compatible when both are numbers or both are strings; a value
  can be searched for in a list, and a string in a string.
\<close>

definition comparable :: "pyval \<Rightarrow> pyval \<Rightarrow> bool" where
  "comparable x v =
    (case (num_val x, num_val v) of
       (Some a, Some b) \<Rightarrow> True
     | _ \<Rightarrow> (case (x, v) of (PStr s, PStr t) \<Rightarrow> True | _ \<Rightarrow> False))"

definition searchable :: "pyval \<Rightarrow> pyval \<Rightarrow> bool" where
  "searchable x v =
    (case v of
       PList ys \<Rightarrow> True
     | PStr t \<Rightarrow> (case x of PStr s \<Rightarrow> True | _ \<Rightarrow> False)
     | _ \<Rightarrow> False)"

definition compatible :: "pystr \<Rightarrow> pyval \<Rightarrow> pyval \<Rightarrow> bool" where
  "compatible opr x v =
    (if opr \<in> set [str ''>'', str ''>='', str ''<'', str ''<=''] then comparable x v
     else if opr \<in> set [str ''in'', str ''not_in''] then searchable x v
     else True)"

text \<open>
  A condition is well-typed for the facts when it is a condition and, where its field is
  a fact, its operator is defined on the fact and the literal. A condition on a missing
  fact or with an unknown operator is well-typed.
\<close>

fun condition_typed :: "(pystr \<rightharpoonup> pyval) \<Rightarrow> pyval \<Rightarrow> bool" where
  "condition_typed facts (PList [PStr field, PStr opr, val]) =
     (case facts field of None \<Rightarrow> True | Some x \<Rightarrow> compatible opr x val)"
| "condition_typed facts _ = False"

definition rule_typed :: "(pystr \<rightharpoonup> pyval) \<Rightarrow> pyval \<Rightarrow> bool" where
  "rule_typed facts r =
    (case py_getitem r (str ''conditions'') of
       Inr (PList cs) \<Rightarrow> list_all (condition_typed facts) cs
     | _ \<Rightarrow> False)"

section \<open>The scenarios of the specification and further inputs\<close>

definition scenario_A :: "pystr \<rightharpoonup> pyval" where
  "scenario_A = map_of
     [(str ''cgpa'', PFloat (4278419646001971 / 2 ^ 50)),
      (str ''co_curricular_score'', PInt 85),
      (str ''family_income'', PInt 5000),
      (str ''disciplinary_actions'', PInt 0)]"

definition scenario_B :: "pystr \<rightharpoonup> pyval" where
  "scenario_B = map_of
     [(str ''cgpa'', PFloat 2),
      (str ''family_income'', PInt 3000),
      (str ''co_curricular_score'', PInt 0),
      (str ''disciplinary_actions'', PInt 0)]"

definition scenario_D :: "pystr \<rightharpoonup> pyval" where
  "scenario_D = map_of
     [(str ''cgpa'', PFloat 3),
      (str ''family_income'', PInt 20000),
      (str ''co_curricular_score'', PInt 10),
      (str ''disciplinary_actions'', PInt 0)]"

text \<open>An example of a catch-all rule: a rule with no conditions.\<close>

definition catch_all :: pyval where
  "catch_all = PDict
     [(str ''name'', S ''Catch-all''),
      (str ''priority'', PInt 1),
      (str ''conditions'', PList []),
      (str ''action'', PDict [(str ''decision'', S ''REVIEW'')])]"

text \<open>An example of a well-shaped rule whose literal cannot be compared with the fact.\<close>

definition rule_bad_literal :: pyval where
  "rule_bad_literal = PDict
     [(str ''name'', S ''Bad literal''),
      (str ''priority'', PInt 1),
      (str ''conditions'', PList [PList [S ''cgpa'', S ''>='', S ''high'']]),
      (str ''action'', PDict [(str ''decision'', S ''REVIEW'')])]"

text \<open>
  A stand-in for \<^verbatim>\<open>json.loads\<close> that knows one document, \<^verbatim>\<open>[{}]\<close>, which is valid JSON
  for a list of one empty object, and raises on every other text.
\<close>

definition json_loads_example :: "pystr \<Rightarrow> pyval option" where
  "json_loads_example doc = (if doc = str ''[{}]'' then Some (PList [PDict []]) else None)"

text \<open>The catch-all rule and the "Low CGPA" rule under other names.\<close>

definition catch_all_renamed :: pyval where
  "catch_all_renamed = PDict
     [(str ''name'', S ''Default''),
      (str ''priority'', PInt 1),
      (str ''conditions'', PList []),
      (str ''action'', PDict [(str ''decision'', S ''REVIEW'')])]"

definition rule_low_cgpa_renamed :: pyval where
  "rule_low_cgpa_renamed = PDict
     [(str ''name'', S ''R4''),
      (str ''priority'', PInt 95),
      (str ''conditions'', PList
         [PList [S ''cgpa'', S ''<'', PFloat (5 / 2)]]),
      (str ''action'', PDict
         [(str ''decision'', S ''REJECT''),
          (str ''reason'', S ''CGPA below minimum scholarship requirement'')])]"

section \<open>Basic facts\<close>

lemma str_eq_iff [simp]: "str a = str b \<longleftrightarrow> a = b"
  unfolding str_def
  by (induction a arbitrary: b) (auto simp: Cons_eq_map_conv)

lemmas engine_defs =
  run_rules_def rule_matches_def evaluate_condition_def unpack3_def OPS_def

lemmas default_rule_defs =
  DEFAULT_RULES_def rule_top_merit_def rule_good_candidate_def rule_need_based_def
  rule_low_cgpa_def rule_disciplinary_def double_3_7_def double_3_3_def

lemma is_ruleD:
  assumes "is_rule r"
  obtains d n p cs a where "r = PDict d" "map_of d (str ''name'') = Some (PStr n)"
    "map_of d (str ''priority'') = Some (PInt p)"
    "map_of d (str ''conditions'') = Some (PList cs)"
    "map_of d (str ''action'') = Some a" "list_all is_condition cs"
  using assms unfolding is_rule_def
  by (auto split: pyval.splits option.splits)

lemma is_rule_priority: "is_rule r \<Longrightarrow> \<exists>p. py_getitem r (str ''priority'') = Inr (PInt p)"
  by (erule is_ruleD) simp

lemma is_rule_action: "is_rule r \<Longrightarrow> \<exists>a. py_getitem r (str ''action'') = Inr a"
  by (erule is_ruleD) simp

lemma default_rules_are_rules:
  "list_all is_rule
     [rule_top_merit, rule_good_candidate, rule_need_based, rule_low_cgpa, rule_disciplinary]"
  by (simp add: is_rule_def default_rule_defs)

lemma OPS_unknown:
  "opr \<notin> {str ''=='', str ''!='', str ''>'', str ''>='', str ''<'', str ''<='', str ''in'',
            str ''not_in''}
   \<Longrightarrow> map_of OPS opr = None"
  by (simp add: OPS_def)

subsection \<open>The default rules on the scenarios\<close>

lemma run_scenario_A:
  "run_rules scenario_A DEFAULT_RULES =
     Inr (PDict
            [(str ''decision'', S ''AWARD_FULL''),
             (str ''reason'',
              S ''Excellent academic & co-curricular performance with acceptable need'')],
          [rule_top_merit, rule_good_candidate])"
  by (simp add: engine_defs default_rule_defs scenario_A_def)

lemma matches_scenario_A:
  "map (rule_matches scenario_A)
     [rule_top_merit, rule_good_candidate, rule_need_based, rule_low_cgpa, rule_disciplinary]
   = [Inr True, Inr True, Inr False, Inr False, Inr False]"
  by (simp add: engine_defs default_rule_defs scenario_A_def)

lemma matches_scenario_D:
  "map (rule_matches scenario_D)
     [rule_top_merit, rule_good_candidate, rule_need_based, rule_low_cgpa, rule_disciplinary]
   = [Inr False, Inr False, Inr False, Inr False, Inr False]"
  by (simp add: engine_defs default_rule_defs scenario_D_def)

subsection \<open>Collecting the matching rules\<close>

lemma matched_rules_filter:
  "matched_rules facts rs = Inr ms \<Longrightarrow> ms = filter (\<lambda>r. rule_matches facts r = Inr True) rs"
  by (induction rs arbitrary: ms) (auto split: sum.splits if_splits)

lemma matched_rules_none:
  "list_all (\<lambda>r. rule_matches facts r = Inr False) rs \<Longrightarrow> matched_rules facts rs = Inr []"
  by (induction rs) auto

lemma priority_keys_snd: "priority_keys ms = Inr krs \<Longrightarrow> map snd krs = ms"
  by (induction ms arbitrary: krs) (auto split: sum.splits)

lemma priority_keys_fst:
  "priority_keys ms = Inr krs \<Longrightarrow> (k, r) \<in> set krs \<Longrightarrow> py_getitem r (str ''priority'') = Inr k"
  by (induction ms arbitrary: krs) (auto split: sum.splits)

text \<open>A decorated pair of a well-shaped rule carries the integer priority of the rule.\<close>

lemma keyed_int:
  assumes "priority_keys ms = Inr krs" "list_all is_rule ms" "y \<in> set krs"
  shows "\<exists>p. fst y = PInt p \<and> rule_priority (snd y) = Some p"
proof -
  obtain k r where y: "y = (k, r)" by (cases y)
  with assms have g: "py_getitem r (str ''priority'') = Inr k"
    using priority_keys_fst by blast
  from assms(1,3) y have "r \<in> set ms"
    using priority_keys_snd[OF assms(1)] by force
  with assms(2) have "is_rule r" by (simp add: list_all_iff)
  with g y show ?thesis using is_rule_priority[of r] by (auto simp: rule_priority_def)
qed

subsection \<open>The sort\<close>

lemma mset_insert_desc: "insert_desc x ys = Inr zs \<Longrightarrow> mset zs = add_mset x (mset ys)"
  by (induction ys arbitrary: zs) (auto split: sum.splits if_splits)

lemma mset_sorted_desc: "sorted_desc xs = Inr ys \<Longrightarrow> mset ys = mset xs"
  by (induction xs arbitrary: ys) (auto split: sum.splits dest: mset_insert_desc)

lemma insert_desc_total:
  assumes "\<exists>p. fst x = PInt p" "\<forall>y\<in>set ys. \<exists>p. fst y = PInt p"
  shows "\<exists>zs. insert_desc x ys = Inr zs"
  using assms by (induction ys) (auto split: sum.splits)

lemma sorted_desc_total:
  assumes "\<forall>y\<in>set xs. \<exists>p. fst y = PInt p"
  shows "\<exists>ys. sorted_desc xs = Inr ys"
  using assms
proof (induction xs)
  case Nil
  then show ?case by simp
next
  case (Cons x xs)
  then obtain ys where ys: "sorted_desc xs = Inr ys" by auto
  then have "set ys = set xs" using mset_sorted_desc by (metis set_mset_mset)
  with Cons.prems have "\<exists>zs. insert_desc x ys = Inr zs"
    by (intro insert_desc_total) auto
  with ys show ?case by simp
qed




lemma run_rules_mset:
  assumes "run_rules facts (PList rs) = Inr (a, ranked)"
  shows "mset ranked = mset (filter (\<lambda>r. rule_matches facts r = Inr True) rs)"
proof -
  from assms obtain ms where ms: "matched_rules facts rs = Inr ms"
    by (auto simp: run_rules_def split: sum.splits)
  show ?thesis
  proof (cases "ms = []")
    case True
    with assms ms matched_rules_filter[OF ms] show ?thesis
      by (simp add: run_rules_def)
  next
    case False
    with assms ms obtain krs srt where k: "priority_keys ms = Inr krs"
      and s: "sorted_desc krs = Inr srt" and r: "ranked = map snd srt"
      by (auto simp: run_rules_def split: sum.splits list.splits)
    have "mset (map snd srt) = mset (map snd krs)"
      using mset_sorted_desc[OF s] by (metis mset_map)
    with r priority_keys_snd[OF k] matched_rules_filter[OF ms] show ?thesis by simp
  qed
qed

section \<open>The governing action\<close>

text \<open>
  C2. When every rule of the collection fails to match, \<open>run_rules\<close> returns the action
  \<^verbatim>\<open>{"decision": "REVIEW", "reason": "No rule matched"}\<close> and the empty list; and
  whenever the ranked list it returns is not empty, the action it returns is the
  \<^verbatim>\<open>action\<close> of the first rule of that list.
\<close>

theorem run_rules_governing_action:
  "(list_all (\<lambda>r. rule_matches facts r = Inr False) rs
      \<longrightarrow> run_rules facts (PList rs) = Inr (no_rule_matched, []))
   \<and> (run_rules facts rules = Inr (a, ranked) \<and> ranked \<noteq> []
      \<longrightarrow> py_getitem (hd ranked) (str ''action'') = Inr a)"
proof (intro conjI impI)
  assume "list_all (\<lambda>r. rule_matches facts r = Inr False) rs"
  then show "run_rules facts (PList rs) = Inr (no_rule_matched, [])"
    by (simp add: run_rules_def matched_rules_none)
next
  assume "run_rules facts rules = Inr (a, ranked) \<and> ranked \<noteq> []"
  then show "py_getitem (hd ranked) (str ''action'') = Inr a"
    by (auto simp: run_rules_def split: sum.splits if_splits list.splits)
qed

theorem run_rules_governing_action_witness:
  "list_all (\<lambda>r. rule_matches scenario_D r = Inr False)
     [rule_top_merit, rule_good_candidate, rule_need_based, rule_low_cgpa, rule_disciplinary]
   \<and> run_rules scenario_D DEFAULT_RULES
     = Inr (PDict [(str ''decision'', S ''REVIEW''), (str ''reason'', S ''No rule matched'')], [])
   \<and> (\<exists>a. run_rules scenario_A DEFAULT_RULES = Inr (a, [rule_top_merit, rule_good_candidate])
          \<and> py_getitem rule_top_merit (str ''action'') = Inr a)"
proof -
  have h1: "list_all (\<lambda>r. rule_matches scenario_D r = Inr False)
     [rule_top_merit, rule_good_candidate, rule_need_based, rule_low_cgpa, rule_disciplinary]"
    using matches_scenario_D by simp
  obtain a where h2: "run_rules scenario_A DEFAULT_RULES
      = Inr (a, [rule_top_merit, rule_good_candidate])"
    using run_scenario_A by simp
  have h3: "[rule_top_merit, rule_good_candidate] \<noteq> []" by simp
  have p1: "run_rules scenario_D
      (PList [rule_top_merit, rule_good_candidate, rule_need_based, rule_low_cgpa,
              rule_disciplinary])
    = Inr (no_rule_matched, [])"
    using run_rules_governing_action
            [of scenario_D "[rule_top_merit, rule_good_candidate, rule_need_based,
               rule_low_cgpa, rule_disciplinary]"] h1
    by blast
  have p2: "py_getitem (hd [rule_top_merit, rule_good_candidate]) (str ''action'') = Inr a"
    using run_rules_governing_action
            [of scenario_A _ DEFAULT_RULES a "[rule_top_merit, rule_good_candidate]"] h2 h3
    by blast
  from h1 h2 p1 p2 show ?thesis by (auto simp: DEFAULT_RULES_def no_rule_matched_def)
qed

section \<open>Conditions\<close>

text \<open>
  C3. A condition whose field is not a key of the facts evaluates to \<^verbatim>\<open>False\<close>, whatever
  its operator and its literal are, and nothing is raised.
\<close>

theorem evaluate_condition_absent_field:
  "facts field = None \<Longrightarrow> evaluate_condition facts (PList [PStr field, opr, val]) = Inr False"
  by (simp add: evaluate_condition_def unpack3_def)

theorem evaluate_condition_absent_field_witness:
  "scenario_B (str ''semester'') = None
   \<and> evaluate_condition scenario_B (PList [S ''semester'', S ''>='', PInt 3]) = Inr False"
proof -
  have h: "scenario_B (str ''semester'') = None" by (simp add: scenario_B_def)
  from evaluate_condition_absent_field[of scenario_B "str ''semester''" "S ''>=''" "PInt 3"] h
  show ?thesis by simp
qed

text \<open>
  C4. A rule whose \<^verbatim>\<open>conditions\<close> is the empty list matches every fact mapping, and so
  stands in the ranked list of every collection it is a member of.
\<close>

theorem rule_matches_no_conditions:
  assumes "py_getitem rule (str ''conditions'') = Inr (PList [])"
  shows "rule_matches facts rule = Inr True
       \<and> (rule \<in> set rs \<and> run_rules facts (PList rs) = Inr (a, ranked) \<longrightarrow> rule \<in> set ranked)"
proof -
  have m: "rule_matches facts rule = Inr True"
    using assms by (simp add: rule_matches_def)
  have "rule \<in> set ranked" if "rule \<in> set rs" "run_rules facts (PList rs) = Inr (a, ranked)"
  proof -
    have "set ranked = set (filter (\<lambda>r. rule_matches facts r = Inr True) rs)"
      using run_rules_mset[OF that(2)] by (metis set_mset_mset)
    with m that(1) show ?thesis by simp
  qed
  with m show ?thesis by blast
qed

theorem rule_matches_no_conditions_witness:
  "py_getitem catch_all (str ''conditions'') = Inr (PList [])
   \<and> rule_matches scenario_D catch_all = Inr True
   \<and> catch_all \<in> set [rule_low_cgpa, catch_all]
   \<and> run_rules scenario_D (PList [rule_low_cgpa, catch_all])
     = Inr (PDict [(str ''decision'', S ''REVIEW'')], [catch_all])"
proof -
  have h1: "py_getitem catch_all (str ''conditions'') = Inr (PList [])"
    by (simp add: catch_all_def)
  have h2: "run_rules scenario_D (PList [rule_low_cgpa, catch_all])
     = Inr (PDict [(str ''decision'', S ''REVIEW'')], [catch_all])"
    by (simp add: engine_defs catch_all_def rule_low_cgpa_def scenario_D_def)
  from rule_matches_no_conditions[OF h1, of scenario_D "[rule_low_cgpa, catch_all]"
         "PDict [(str ''decision'', S ''REVIEW'')]" "[catch_all]"] h1 h2
  show ?thesis by simp
qed

text \<open>
  C5. A condition whose operator symbol is none of \<^verbatim>\<open>==\<close>, \<^verbatim>\<open>!=\<close>, \<^verbatim>\<open>>\<close>, \<^verbatim>\<open>>=\<close>,
  \<^verbatim>\<open><\<close>, \<^verbatim>\<open><=\<close>, \<^verbatim>\<open>in\<close>, \<^verbatim>\<open>not_in\<close> evaluates to \<^verbatim>\<open>False\<close>; nothing is raised.
\<close>

theorem evaluate_condition_unknown_operator:
  "opr \<notin> {str ''=='', str ''!='', str ''>'', str ''>='', str ''<'', str ''<='', str ''in'',
            str ''not_in''}
   \<Longrightarrow> evaluate_condition facts (PList [PStr field, PStr opr, val]) = Inr False"
  by (cases "facts field") (simp_all add: evaluate_condition_def unpack3_def OPS_unknown)

theorem evaluate_condition_unknown_operator_witness:
  "str ''=>'' \<notin> {str ''=='', str ''!='', str ''>'', str ''>='', str ''<'', str ''<='', str ''in'',
                  str ''not_in''}
   \<and> scenario_B (str ''cgpa'') = Some (PFloat 2)
   \<and> evaluate_condition scenario_B (PList [S ''cgpa'', S ''=>'', PInt 1]) = Inr False"
proof -
  have h: "str ''=>'' \<notin> {str ''=='', str ''!='', str ''>'', str ''>='', str ''<'', str ''<='',
                          str ''in'', str ''not_in''}"
    by simp
  have f: "scenario_B (str ''cgpa'') = Some (PFloat 2)" by (simp add: scenario_B_def)
  from evaluate_condition_unknown_operator[OF h] h f show ?thesis by simp
qed


section \<open>Scenario B\<close>

lemma matches_scenario_B:
  "map (rule_matches scenario_B)
     [rule_top_merit, rule_good_candidate, rule_need_based, rule_low_cgpa, rule_disciplinary]
   = [Inr False, Inr False, Inr False, Inr True, Inr False]"
  by (simp add: engine_defs default_rule_defs scenario_B_def)

lemma priorities_default:
  "map rule_priority
     [rule_top_merit, rule_good_candidate, rule_need_based, rule_low_cgpa, rule_disciplinary]
   = [Some 100, Some 80, Some 70, Some 95, Some 90]"
  by (simp add: rule_priority_def default_rule_defs)

text \<open>
  C6, as stated, fails: with the facts of scenario B the rule "Need-based review" does
  not match, since its first condition is \<^verbatim>\<open>cgpa >= 2.5\<close> and the cgpa is 2.0.
\<close>

theorem scenario_B_need_based_counterexample:
  "\<not> (rule_matches scenario_B rule_low_cgpa = Inr True
      \<and> rule_matches scenario_B rule_need_based = Inr True)"
  using matches_scenario_B by simp

text \<open>
  C6, amended. With the facts of scenario B and the default rules, the "Low CGPA" rule
  (priority 95) is the only rule that matches; it governs and the decision is
  \<^verbatim>\<open>REJECT\<close>. "Need-based review" (priority 70) does not match.
\<close>

theorem scenario_B_low_cgpa_governs:
  "run_rules scenario_B DEFAULT_RULES =
     Inr (PDict [(str ''decision'', S ''REJECT''),
                 (str ''reason'', S ''CGPA below minimum scholarship requirement'')],
          [rule_low_cgpa])
   \<and> rule_matches scenario_B rule_low_cgpa = Inr True
   \<and> rule_priority rule_low_cgpa = Some 95
   \<and> rule_matches scenario_B rule_need_based = Inr False
   \<and> rule_priority rule_need_based = Some 70"
proof -
  have "run_rules scenario_B DEFAULT_RULES =
     Inr (PDict [(str ''decision'', S ''REJECT''),
                 (str ''reason'', S ''CGPA below minimum scholarship requirement'')],
          [rule_low_cgpa])"
    by (simp add: engine_defs default_rule_defs scenario_B_def)
  with matches_scenario_B priorities_default show ?thesis by simp
qed

section \<open>The default rules\<close>

lemma default_conditions_in_OPS:
  "list_all (\<lambda>r. \<exists>cs. py_getitem r (str ''conditions'') = Inr (PList cs)
                    \<and> list_all condition_in_OPS cs)
     [rule_top_merit, rule_good_candidate, rule_need_based, rule_low_cgpa, rule_disciplinary]"
  by (simp add: default_rule_defs condition_in_OPS_def unpack3_def OPS_def)

text \<open>
  C10. Every rule of \<^verbatim>\<open>DEFAULT_RULES\<close> is well-shaped: it has the four keys, an integer
  priority, and conditions that are 3-element lists; and every one of these conditions
  unpacks into three values of which the operator is a key of \<^verbatim>\<open>OPS\<close>.
\<close>

theorem DEFAULT_RULES_well_shaped:
  "\<exists>rs. DEFAULT_RULES = PList rs
      \<and> list_all is_rule rs
      \<and> list_all (\<lambda>r. \<exists>cs. py_getitem r (str ''conditions'') = Inr (PList cs)
                          \<and> list_all condition_in_OPS cs) rs"
  using default_rules_are_rules default_conditions_in_OPS
  by (simp add: DEFAULT_RULES_def)

section \<open>Loading the rule document\<close>

text \<open>
  C8, as stated, fails: the document \<^verbatim>\<open>[{}]\<close> is valid JSON, its one rule has none of the
  required keys, and it is handed to \<open>run_rules\<close> as it is, where the subscript
  \<^verbatim>\<open>rule["conditions"]\<close> raises \<^verbatim>\<open>KeyError\<close>.
\<close>

theorem load_rules_ill_shaped_counterexample:
  "\<not> list_all is_rule [PDict []]
   \<and> load_rules json_loads_example (str ''[{}]'') = PList [PDict []]
   \<and> evaluation json_loads_example (str ''[{}]'') scenario_A = Inl KeyError"
  by (simp add: is_rule_def load_rules_def json_loads_example_def evaluation_def
        run_rules_def rule_matches_def)

text \<open>
  C8, amended. A document on which \<^verbatim>\<open>json.loads\<close> raises is replaced by the default
  rules, which are well-shaped; a document that \<^verbatim>\<open>json.loads\<close> accepts is passed to
  \<open>run_rules\<close> as parsed, with no check of its shape.
\<close>

theorem load_rules_checks_syntax_only:
  "(json_loads doc = None \<longrightarrow>
      load_rules json_loads doc = DEFAULT_RULES
      \<and> (\<exists>rs. load_rules json_loads doc = PList rs \<and> list_all is_rule rs))
   \<and> (json_loads doc = Some rules \<longrightarrow>
      load_rules json_loads doc = rules
      \<and> evaluation json_loads doc facts = run_rules facts rules)"
  using default_rules_are_rules
  by (simp add: load_rules_def evaluation_def DEFAULT_RULES_def)

theorem load_rules_checks_syntax_only_witness:
  "json_loads_example (str ''[{'') = None
   \<and> load_rules json_loads_example (str ''[{'') = DEFAULT_RULES
   \<and> json_loads_example (str ''[{}]'') = Some (PList [PDict []])
   \<and> load_rules json_loads_example (str ''[{}]'') = PList [PDict []]
   \<and> evaluation json_loads_example (str ''[{}]'') scenario_A
     = run_rules scenario_A (PList [PDict []])"
proof -
  have h1: "json_loads_example (str ''[{'') = None"
    by (simp add: json_loads_example_def)
  have h2: "json_loads_example (str ''[{}]'') = Some (PList [PDict []])"
    by (simp add: json_loads_example_def)
  from load_rules_checks_syntax_only[of json_loads_example "str ''[{''"]
       load_rules_checks_syntax_only
         [of json_loads_example "str ''[{}]''" "PList [PDict []]" scenario_A]
       h1 h2
  show ?thesis by simp
qed


section \<open>What the engine raises\<close>

lemma comparable_cmp: "comparable x v \<Longrightarrow> \<exists>b. py_cmp c x v = Inr b"
  unfolding comparable_def
  by (cases x; cases v) (auto split: option.splits)

lemma searchable_in: "searchable x v \<Longrightarrow> \<exists>b. py_in x v = Inr b"
  unfolding searchable_def
  by (cases v; cases x) auto

text \<open>Every function of \<^verbatim>\<open>OPS\<close> returns on operands its operator is defined on.\<close>

lemma OPS_total:
  assumes "map_of OPS opr = Some f" "compatible opr x v"
  shows "\<exists>b. f x v = Inr b"
proof -
  from assms(1) consider
      "opr = str ''==''" "f = (\<lambda>a b. Inr (py_eq a b))"
    | "opr = str ''!=''" "f = (\<lambda>a b. Inr (\<not> py_eq a b))"
    | "opr = str ''>''" "f = py_cmp Gt"
    | "opr = str ''>=''" "f = py_cmp Ge"
    | "opr = str ''<''" "f = py_cmp Lt"
    | "opr = str ''<=''" "f = py_cmp Le"
    | "opr = str ''in''" "f = (\<lambda>a b. py_in a b)"
    | "opr = str ''not_in''"
      "f = (\<lambda>a b. (case py_in a b of Inl e \<Rightarrow> Inl e | Inr r \<Rightarrow> Inr (\<not> r)))"
    by (auto simp: OPS_def split: if_splits)
  then show ?thesis
  proof cases
    case 1 then show ?thesis by simp
  next
    case 2 then show ?thesis by simp
  next
    case 3 with assms(2) show ?thesis by (simp add: compatible_def comparable_cmp)
  next
    case 4 with assms(2) show ?thesis by (simp add: compatible_def comparable_cmp)
  next
    case 5 with assms(2) show ?thesis by (simp add: compatible_def comparable_cmp)
  next
    case 6 with assms(2) show ?thesis by (simp add: compatible_def comparable_cmp)
  next
    case 7 with assms(2) show ?thesis by (simp add: compatible_def searchable_in)
  next
    case 8
    with assms(2) have "searchable x v" by (simp add: compatible_def)
    from searchable_in[OF this] 8 show ?thesis by auto
  qed
qed

lemma condition_typed_total:
  assumes "condition_typed facts c"
  shows "\<exists>b. evaluate_condition facts c = Inr b"
proof -
  from assms obtain field opr val where c: "c = PList [PStr field, PStr opr, val]"
    and t: "case facts field of None \<Rightarrow> True | Some x \<Rightarrow> compatible opr x val"
    by (auto elim: condition_typed.elims(2))
  show ?thesis
  proof (cases "facts field")
    case None
    with c show ?thesis by (auto simp: evaluate_condition_def unpack3_def)
  next
    case (Some x)
    show ?thesis
    proof (cases "map_of OPS opr")
      case None
      with c Some show ?thesis by (auto simp: evaluate_condition_def unpack3_def)
    next
      case (Some f)
      with t \<open>facts field = Some x\<close> have "\<exists>b. f x val = Inr b"
        using OPS_total by simp
      with c Some \<open>facts field = Some x\<close> show ?thesis
        by (auto simp: evaluate_condition_def unpack3_def)
    qed
  qed
qed

lemma all_conditions_total:
  "list_all (condition_typed facts) cs \<Longrightarrow> \<exists>b. all_conditions facts cs = Inr b"
proof (induction cs)
  case Nil
  show ?case by (rule exI[of _ True]) simp
next
  case (Cons c cs)
  then obtain b where "evaluate_condition facts c = Inr b"
    using condition_typed_total by auto
  with Cons show ?case by (cases b) auto
qed

lemma rule_typed_total:
  assumes "rule_typed facts r"
  shows "\<exists>b. rule_matches facts r = Inr b"
proof -
  from assms obtain cs where "py_getitem r (str ''conditions'') = Inr (PList cs)"
    "list_all (condition_typed facts) cs"
    unfolding rule_typed_def by (auto split: sum.splits pyval.splits)
  then show ?thesis using all_conditions_total[of facts cs] by (auto simp: rule_matches_def)
qed

lemma matched_rules_total:
  "list_all (rule_typed facts) rs \<Longrightarrow> \<exists>ms. matched_rules facts rs = Inr ms"
proof (induction rs)
  case Nil
  then show ?case by simp
next
  case (Cons r rs)
  then obtain b where "rule_matches facts r = Inr b"
    using rule_typed_total by auto
  with Cons show ?case by auto
qed

lemma priority_keys_total:
  "list_all is_rule ms \<Longrightarrow> \<exists>krs. priority_keys ms = Inr krs"
proof (induction ms)
  case Nil
  then show ?case by simp
next
  case (Cons r ms)
  then obtain p where "py_getitem r (str ''priority'') = Inr (PInt p)"
    using is_rule_priority by auto
  with Cons show ?case by auto
qed

text \<open>
  C7, as stated, fails: \<open>rule_bad_literal\<close> is well-shaped, but its condition compares
  the float \<^verbatim>\<open>cgpa\<close> with the string \<^verbatim>\<open>"high"\<close>, and \<^verbatim>\<open>operator.ge\<close> raises
  \<^verbatim>\<open>TypeError\<close>, which nothing in the engine catches; in the same way \<^verbatim>\<open>in\<close> raises when
  its right operand is the number 3.
\<close>

theorem run_rules_raises_counterexample:
  "is_rule rule_bad_literal
   \<and> run_rules scenario_A (PList [rule_bad_literal]) = Inl TypeError
   \<and> evaluate_condition scenario_A (PList [S ''cgpa'', S ''in'', PInt 3]) = Inl TypeError"
  by (simp add: is_rule_def rule_bad_literal_def engine_defs scenario_A_def)

text \<open>
  C7, amended. For a collection of well-shaped rules, \<open>run_rules\<close> returns a result
  whenever every condition whose field is a fact applies its operator to operands the
  operator is defined on: any two values for \<^verbatim>\<open>==\<close> and \<^verbatim>\<open>!=\<close>, two numbers or two
  strings for the ordered comparisons, a list (or two strings) for \<^verbatim>\<open>in\<close> and
  \<^verbatim>\<open>not_in\<close>. Missing facts and unknown operators never make it raise.
\<close>

theorem run_rules_returns:
  assumes "list_all is_rule rs" and "list_all (rule_typed facts) rs"
  shows "\<exists>a ranked. run_rules facts (PList rs) = Inr (a, ranked)"
proof -
  obtain ms where ms: "matched_rules facts rs = Inr ms"
    using matched_rules_total[OF assms(2)] by blast
  show ?thesis
  proof (cases "ms = []")
    case True
    with ms show ?thesis by (simp add: run_rules_def)
  next
    case False
    have rules: "list_all is_rule ms"
      using assms(1) matched_rules_filter[OF ms] by (simp add: list_all_iff)
    obtain krs where k: "priority_keys ms = Inr krs"
      using priority_keys_total[OF rules] by blast
    have "\<forall>y\<in>set krs. \<exists>p. fst y = PInt p"
      using keyed_int[OF k rules] by blast
    then obtain srt where s: "sorted_desc krs = Inr srt"
      using sorted_desc_total by blast
    have "mset (map snd srt) = mset ms"
      using mset_sorted_desc[OF s] priority_keys_snd[OF k] by (metis mset_map)
    then have sets: "set (map snd srt) = set ms" by (metis set_mset_mset)
    with False obtain best rest where b: "map snd srt = best # rest"
      by (cases "map snd srt") auto
    with sets have "best \<in> set ms" by auto
    with rules have "is_rule best" by (simp add: list_all_iff)
    then obtain a where "py_getitem best (str ''action'') = Inr a"
      using is_rule_action by blast
    with ms False k s b show ?thesis by (simp add: run_rules_def)
  qed
qed

theorem run_rules_returns_witness:
  "list_all is_rule
     [rule_top_merit, rule_good_candidate, rule_need_based, rule_low_cgpa, rule_disciplinary]
   \<and> list_all (rule_typed scenario_A)
     [rule_top_merit, rule_good_candidate, rule_need_based, rule_low_cgpa, rule_disciplinary]
   \<and> (\<exists>a ranked. run_rules scenario_A DEFAULT_RULES = Inr (a, ranked))"
proof -
  note h1 = default_rules_are_rules
  have h2: "list_all (rule_typed scenario_A)
     [rule_top_merit, rule_good_candidate, rule_need_based, rule_low_cgpa, rule_disciplinary]"
    by (simp add: rule_typed_def compatible_def comparable_def
          default_rule_defs scenario_A_def)
  from run_rules_returns[OF h1 h2] h1 h2 show ?thesis by (simp add: DEFAULT_RULES_def)
qed


section \<open>Ranking\<close>










section \<open>The name of a rule\<close>

lemma same_but_name_getitem:
  "same_but_name r r' \<Longrightarrow> k \<noteq> str ''name'' \<Longrightarrow> py_getitem r k = py_getitem r' k"
  unfolding same_but_name_def
  by (cases r; cases r') auto

lemma same_but_name_matches:
  "same_but_name r r' \<Longrightarrow> rule_matches facts r = rule_matches facts r'"
  using same_but_name_getitem[of r r' "str ''conditions''"]
  by (simp add: rule_matches_def)

lemma same_but_name_matched:
  "list_all2 same_but_name rs rs' \<Longrightarrow>
   rel_sum (=) (list_all2 same_but_name) (matched_rules facts rs) (matched_rules facts rs')"
proof (induction rule: list_all2_induct)
  case Nil
  then show ?case by simp
next
  case (Cons r rs r' rs')
  from Cons.hyps(1) have "rule_matches facts r = rule_matches facts r'"
    by (rule same_but_name_matches)
  with Cons show ?case
    by (auto split: sum.splits)
qed

lemma same_but_name_keys:
  "list_all2 same_but_name ms ms' \<Longrightarrow>
   rel_sum (=) (list_all2 (rel_prod (=) same_but_name)) (priority_keys ms) (priority_keys ms')"
proof (induction rule: list_all2_induct)
  case Nil
  then show ?case by simp
next
  case (Cons r rs r' rs')
  from Cons.hyps(1)
  have "py_getitem r (str ''priority'') = py_getitem r' (str ''priority'')"
    by (rule same_but_name_getitem) simp
  with Cons show ?case
    by (auto split: sum.splits)
qed

lemma same_but_name_insert:
  assumes "rel_prod (=) same_but_name x x'"
    and "list_all2 (rel_prod (=) same_but_name) ys ys'"
  shows "rel_sum (=) (list_all2 (rel_prod (=) same_but_name))
           (insert_desc x ys) (insert_desc x' ys')"
  using assms(2,1)
proof (induction rule: list_all2_induct)
  case Nil
  then show ?case by simp
next
  case (Cons y ys y' ys')
  from Cons.hyps(1) Cons.prems have "fst x = fst x'" "fst y = fst y'"
    by (auto simp: rel_prod_sel)
  with Cons show ?case
    by (auto split: sum.splits)
qed

lemma same_but_name_sorted:
  "list_all2 (rel_prod (=) same_but_name) xs xs' \<Longrightarrow>
   rel_sum (=) (list_all2 (rel_prod (=) same_but_name)) (sorted_desc xs) (sorted_desc xs')"
proof (induction rule: list_all2_induct)
  case Nil
  then show ?case by simp
next
  case (Cons x xs x' xs')
  show ?case
  proof (cases "sorted_desc xs")
    case (Inl e)
    with Cons.IH show ?thesis by (cases "sorted_desc xs'") auto
  next
    case (Inr ys)
    with Cons.IH obtain ys' where "sorted_desc xs' = Inr ys'"
      "list_all2 (rel_prod (=) same_but_name) ys ys'"
      by (cases "sorted_desc xs'") auto
    with Inr same_but_name_insert[OF Cons.hyps(1) this(2)] show ?thesis by simp
  qed
qed

text \<open>
  C9. When two rule collections differ only in the names of their rules, \<open>run_rules\<close>
  does the same on both: it raises the same error, or it returns the same action and
  ranked lists that hold, position by position, rules that are the same but for the
  name, and so agree on \<^verbatim>\<open>priority\<close>, \<^verbatim>\<open>conditions\<close> and \<^verbatim>\<open>action\<close>.
\<close>

theorem run_rules_ignores_name:
  assumes "list_all2 same_but_name rs rs'"
  shows "case run_rules facts (PList rs) of
           Inl e \<Rightarrow> run_rules facts (PList rs') = Inl e
         | Inr (a, ranked) \<Rightarrow>
            (\<exists>ranked'. run_rules facts (PList rs') = Inr (a, ranked')
               \<and> list_all2 same_but_name ranked ranked'
               \<and> list_all2 (\<lambda>r r'.
                     py_getitem r (str ''priority'') = py_getitem r' (str ''priority'')
                   \<and> py_getitem r (str ''conditions'') = py_getitem r' (str ''conditions'')
                   \<and> py_getitem r (str ''action'') = py_getitem r' (str ''action''))
                   ranked ranked')"
proof -
  have fields: "list_all2 (\<lambda>r r'.
        py_getitem r (str ''priority'') = py_getitem r' (str ''priority'')
      \<and> py_getitem r (str ''conditions'') = py_getitem r' (str ''conditions'')
      \<and> py_getitem r (str ''action'') = py_getitem r' (str ''action'')) xs xs'"
    if "list_all2 same_but_name xs xs'" for xs xs'
    using that by (rule list_all2_mono) (simp add: same_but_name_getitem)
  note m = same_but_name_matched[OF assms, of facts]
  show ?thesis
  proof (cases "matched_rules facts rs")
    case (Inl e)
    with m have "matched_rules facts rs' = Inl e"
      by (cases "matched_rules facts rs'") auto
    with Inl show ?thesis by (simp add: run_rules_def)
  next
    case (Inr ms)
    with m obtain ms' where ms': "matched_rules facts rs' = Inr ms'"
      and rel: "list_all2 same_but_name ms ms'"
      by (cases "matched_rules facts rs'") auto
    show ?thesis
    proof (cases "ms = []")
      case True
      with rel have "ms' = []" by simp
      with True Inr ms' show ?thesis by (simp add: run_rules_def)
    next
      case False
      with rel have ne': "ms' \<noteq> []" by auto
      note k = same_but_name_keys[OF rel]
      show ?thesis
      proof (cases "priority_keys ms")
        case (Inl e)
        with k have "priority_keys ms' = Inl e" by (cases "priority_keys ms'") auto
        with Inl Inr ms' False ne' show ?thesis by (simp add: run_rules_def)
      next
        case krs: (Inr krs)
        with k obtain krs' where krs': "priority_keys ms' = Inr krs'"
          and relk: "list_all2 (rel_prod (=) same_but_name) krs krs'"
          by (cases "priority_keys ms'") auto
        note s = same_but_name_sorted[OF relk]
        show ?thesis
        proof (cases "sorted_desc krs")
          case (Inl e)
          with s have "sorted_desc krs' = Inl e" by (cases "sorted_desc krs'") auto
          with Inl Inr ms' False ne' krs krs' show ?thesis by (simp add: run_rules_def)
        next
          case srt: (Inr srt)
          with s obtain srt' where srt': "sorted_desc krs' = Inr srt'"
            and rels: "list_all2 (rel_prod (=) same_but_name) srt srt'"
            by (cases "sorted_desc krs'") auto
          have relr: "list_all2 same_but_name (map snd srt) (map snd srt')"
            using rels by (simp add: list_all2_conv_all_nth rel_prod_sel)
          show ?thesis
          proof (cases "map snd srt")
            case Nil
            with relr have "map snd srt' = []" by simp
            with Nil Inr ms' False ne' krs krs' srt srt' show ?thesis
              by (simp add: run_rules_def)
          next
            case (Cons best rest)
            with relr obtain best' rest' where c': "map snd srt' = best' # rest'"
              and b: "same_but_name best best'" and r: "list_all2 same_but_name rest rest'"
              by (auto simp: list_all2_Cons1)
            have a: "py_getitem best (str ''action'') = py_getitem best' (str ''action'')"
              using b by (rule same_but_name_getitem) simp
            have f: "list_all2 same_but_name (best # rest) (best' # rest')"
              using b r by simp
            from fields[OF f] f a Cons c' Inr ms' False ne' krs krs' srt srt'
            show ?thesis
              by (auto simp: run_rules_def split: sum.splits)
          qed
        qed
      qed
    qed
  qed
qed

theorem run_rules_ignores_name_witness:
  "list_all2 same_but_name [catch_all, rule_low_cgpa] [catch_all_renamed, rule_low_cgpa_renamed]
   \<and> (\<exists>a. run_rules scenario_B (PList [catch_all, rule_low_cgpa])
            = Inr (a, [rule_low_cgpa, catch_all])
        \<and> run_rules scenario_B (PList [catch_all_renamed, rule_low_cgpa_renamed])
            = Inr (a, [rule_low_cgpa_renamed, catch_all_renamed]))"
proof -
  have h: "list_all2 same_but_name [catch_all, rule_low_cgpa]
             [catch_all_renamed, rule_low_cgpa_renamed]"
    by (simp add: same_but_name_def catch_all_def catch_all_renamed_def rule_low_cgpa_def
          rule_low_cgpa_renamed_def)
  have r: "run_rules scenario_B (PList [catch_all, rule_low_cgpa])
      = Inr (PDict [(str ''decision'', S ''REJECT''),
                    (str ''reason'', S ''CGPA below minimum scholarship requirement'')],
             [rule_low_cgpa, catch_all])"
    by (simp add: engine_defs catch_all_def rule_low_cgpa_def scenario_B_def)
  have r': "run_rules scenario_B (PList [catch_all_renamed, rule_low_cgpa_renamed])
      = Inr (PDict [(str ''decision'', S ''REJECT''),
                    (str ''reason'', S ''CGPA below minimum scholarship requirement'')],
             [rule_low_cgpa_renamed, catch_all_renamed])"
    by (simp add: engine_defs catch_all_renamed_def rule_low_cgpa_renamed_def scenario_B_def)
  from run_rules_ignores_name[OF h, of scenario_B] h r r' show ?thesis by simp
qed


end
